theory Spec2Isabelle
  imports Complex_Main "HOL-Library.Extended_Nat"
begin

section \<open>Errors\<close>

text \<open>
  The source throws \<^verbatim>\<open>RangeError\<close> from its own validation and \<^verbatim>\<open>TypeError\<close> when a
  property of \<^verbatim>\<open>undefined\<close> or \<^verbatim>\<open>null\<close> is read. A throwing call is the \<open>Inl\<close> branch
  of a sum.
\<close>

datatype error = RangeError | TypeError

section \<open>Tracks\<close>

text \<open>
  \<^verbatim>\<open>TrackUtils.build\<close> and \<^verbatim>\<open>TrackUtils.buildUnresolved\<close> tag the objects they make with
  \<^verbatim>\<open>TRACK_SYMBOL\<close> or \<^verbatim>\<open>UNRESOLVED_TRACK_SYMBOL\<close>; any other object carries neither.
  The field \<open>track\<close> is the opaque encoded payload sent to a node.
\<close>

datatype track_symbol = TRACK_SYMBOL | UNRESOLVED_TRACK_SYMBOL | NO_SYMBOL

record track =
  track :: string
  title :: string
  author :: string
  duration :: int
  "identifier" :: string
  uri :: string
  symbol :: track_symbol

text \<open>The argument of \<^verbatim>\<open>Queue.add\<close>: one track or an array of tracks.\<close>

datatype track_arg = One track | Many "track list"

definition tagged :: "track \<Rightarrow> bool" where
  "tagged t = (symbol t = TRACK_SYMBOL \<or> symbol t = UNRESOLVED_TRACK_SYMBOL)"

text \<open>
  \<^verbatim>\<open>TrackUtils.validate\<close>: a non-empty array is valid when each element is tagged; everything
  else, the empty array included, is tested for a tag of its own, which an array never has.
\<close>

fun validate :: "track_arg \<Rightarrow> bool" where
  "validate (Many []) = False"
| "validate (Many ts) = list_all tagged ts"
| "validate (One t) = tagged t"

section \<open>Queue\<close>

text \<open>
  \<^verbatim>\<open>class Queue extends Array\<close>: the array part is \<open>items\<close> (the pending sequence),
  \<open>current\<close> and \<open>previous\<close> are the two slots. A slot holding \<^verbatim>\<open>null\<close> or
  \<^verbatim>\<open>undefined\<close> is \<open>None\<close>; a track object is always truthy.
\<close>

record queue =
  items :: "track list"
  current :: "track option"
  previous :: "track option"

definition new_queue :: queue where
  "new_queue = \<lparr>items = [], current = None, previous = None\<rparr>"

definition totalSize :: "queue \<Rightarrow> nat" where
  "totalSize q = length (items q) + (if current q \<noteq> None then 1 else 0)"

text \<open>The getter \<^verbatim>\<open>size\<close>, an alias of \<^verbatim>\<open>totalSize\<close>.\<close>

definition size_q :: "queue \<Rightarrow> nat" where
  "size_q q = totalSize q"

text \<open>
  \<^verbatim>\<open>Array.prototype.splice(start, deleteCount, ...ins)\<close> on integers: a negative start counts
  from the end, both bounds are clamped to the array. The result is the removed elements and
  the array that is left.
\<close>

definition splice :: "'a list \<Rightarrow> int \<Rightarrow> int \<Rightarrow> 'a list \<Rightarrow> 'a list \<times> 'a list" where
  "splice xs start deleteCount ins =
     (let len = int (length xs);
          actualStart = (if start < 0 then max (len + start) 0 else min start len);
          actualDeleteCount = min (max deleteCount 0) (len - actualStart);
          a = nat actualStart;
          d = nat actualDeleteCount
      in (take d (drop a xs), take a xs @ ins @ drop (a + d) xs))"

definition shift :: "queue \<Rightarrow> track option \<times> queue" where
  "shift q = (case items q of [] \<Rightarrow> (None, q) | t # ts \<Rightarrow> (Some t, q\<lparr>items := ts\<rparr>))"

definition unshift :: "queue \<Rightarrow> track \<Rightarrow> queue" where
  "unshift q t = q\<lparr>items := t # items q\<rparr>"

definition tracks_of :: "track_arg \<Rightarrow> track list" where
  "tracks_of a = (case a of One t \<Rightarrow> [t] | Many ts \<Rightarrow> ts)"

text \<open>
  \<^verbatim>\<open>Queue.add(track, offset?)\<close>. \<open>offset = None\<close> is the call without an offset. Offsets are
  integers here; the source's \<^verbatim>\<open>isNaN\<close> test has no integer case.
\<close>

definition add :: "queue \<Rightarrow> track_arg \<Rightarrow> int option \<Rightarrow> error + queue" where
  "add q a offset =
     (if \<not> validate a then Inl RangeError
      else if current q = None then
        (case a of
           Many ts \<Rightarrow> Inr (q\<lparr>current := (case ts of [] \<Rightarrow> None | t # _ \<Rightarrow> Some t),
                            items := items q @ tl ts\<rparr>)
         | One t \<Rightarrow> Inr (q\<lparr>current := Some t\<rparr>))
      else
        (case offset of
           Some off \<Rightarrow>
             if off < 0 \<or> off > int (length (items q)) then Inl RangeError
             else Inr (q\<lparr>items := snd (splice (items q) off 0 (tracks_of a))\<rparr>)
         | None \<Rightarrow> Inr (q\<lparr>items := items q @ tracks_of a\<rparr>)))"

text \<open>
  \<^verbatim>\<open>Queue.remove(startOrPosition = 0, end?)\<close>: \<open>None\<close> for the position is the omitted
  argument, which defaults to 0. The result is the removed tracks and the queue.
\<close>

definition remove :: "queue \<Rightarrow> int option \<Rightarrow> int option \<Rightarrow> error + (track list \<times> queue)" where
  "remove q startOrPosition end =
     (let start = (case startOrPosition of None \<Rightarrow> 0 | Some s \<Rightarrow> s) in
      case end of
        Some e \<Rightarrow>
          if start \<ge> e \<or> start \<ge> int (length (items q)) then Inl RangeError
          else (let (removed, rest) = splice (items q) start (e - start) []
                in Inr (removed, q\<lparr>items := rest\<rparr>))
      | None \<Rightarrow>
          (let (removed, rest) = splice (items q) start 1 []
           in Inr (removed, q\<lparr>items := rest\<rparr>)))"

definition clear :: "queue \<Rightarrow> queue" where
  "clear q = q\<lparr>items := snd (splice (items q) 0 (int (length (items q))) [])\<rparr>"

text \<open>
  \<^verbatim>\<open>Queue.shuffle\<close>: for \<open>i\<close> from \<open>length - 1\<close> down to 1, swap positions \<open>i\<close> and
  \<open>j = floor(random() * (i + 1))\<close>. The random source is the function \<open>rnd\<close>, read at the
  loop index and reduced to the range \<open>0..i\<close> that the floor can produce.
\<close>

fun shuffle_loop :: "(nat \<Rightarrow> nat) \<Rightarrow> nat \<Rightarrow> 'a list \<Rightarrow> 'a list" where
  "shuffle_loop rnd 0 xs = xs"
| "shuffle_loop rnd (Suc i) xs =
     (let j = rnd (Suc i) mod (Suc i + 1)
      in shuffle_loop rnd i (xs[Suc i := xs ! j, j := xs ! Suc i]))"

definition shuffle :: "(nat \<Rightarrow> nat) \<Rightarrow> queue \<Rightarrow> queue" where
  "shuffle rnd q = q\<lparr>items := shuffle_loop rnd (length (items q) - 1) (items q)\<rparr>"

section \<open>Filters\<close>

text \<open>
  Filter settings are stored and copied, never computed with; their numbers are rationals
  here. \<open>f_volume\<close> is the field \<^verbatim>\<open>volume\<close> of \<^verbatim>\<open>Filters\<close>, apart from the
  \<^verbatim>\<open>volume\<close> of the player.
\<close>

record Band =
  band :: rat
  gain :: rat

record distortionOptions =
  sinOffset :: "rat option"
  sinScale :: "rat option"
  cosOffset :: "rat option"
  cosScale :: "rat option"
  tanOffset :: "rat option"
  tanScale :: "rat option"
  offset :: "rat option"
  scale :: "rat option"

record karaokeOptions =
  level :: "rat option"
  monoLevel :: "rat option"
  filterBand :: "rat option"
  filterWidth :: "rat option"

record rotationOptions =
  rotationHz :: rat

record timescaleOptions =
  speed :: "rat option"
  pitch :: "rat option"
  rate :: "rat option"

record vibratoOptions =
  frequency :: rat
  depth :: rat

record Filters =
  distortion :: "distortionOptions option"
  equalizer :: "Band list"
  karaoke :: "karaokeOptions option"
  rotation :: "rotationOptions option"
  timescale :: "timescaleOptions option"
  vibrato :: "vibratoOptions option"
  f_volume :: rat

definition new_Filters :: Filters where
  "new_Filters = \<lparr>distortion = None, equalizer = [], karaoke = None, rotation = None,
     timescale = None, vibrato = None, f_volume = 1\<rparr>"

section \<open>Player\<close>

datatype State = CONNECTED | CONNECTING | DISCONNECTED | DISCONNECTING | DESTROYING
  | MOVING | RESUMING

text \<open>
  \<open>voice_event\<close> is \<^verbatim>\<open>voiceState.event\<close> (token and endpoint of the last voice-server
  update); it is \<open>None\<close> until one arrives. \<open>dynamicLoopInterval\<close> is the period of the
  interval last started by \<^verbatim>\<open>setDynamicRepeat\<close>, \<open>None\<close> once it is cleared.
\<close>

record voice_event =
  token :: string
  endpoint :: string

record VoiceState =
  event :: "voice_event option"
  sessionId :: "string option"

record player =
  queue :: queue
  filters :: Filters
  trackRepeat :: bool
  queueRepeat :: bool
  dynamicRepeat :: bool
  position :: int
  playing :: bool
  paused :: bool
  volume :: int
  isAutoplay :: bool
  node :: string
  guild :: string
  voiceChannel :: "string option"
  textChannel :: "string option"
  state :: State
  voiceState :: VoiceState
  dynamicLoopInterval :: "nat option"

text \<open>The fields as the constructor and the field initialisers leave them.\<close>

definition new_player :: "string \<Rightarrow> string \<Rightarrow> player" where
  "new_player g n = \<lparr>queue = new_queue, filters = new_Filters, trackRepeat = False,
     queueRepeat = False, dynamicRepeat = False, position = 0, playing = False,
     paused = False, volume = 80, isAutoplay = False, node = n, guild = g,
     voiceChannel = None, textChannel = None, state = DISCONNECTED,
     voiceState = \<lparr>event = None, sessionId = None\<rparr>, dynamicLoopInterval = None\<rparr>"

subsection \<open>Repeat modes\<close>

definition setTrackRepeat :: "player \<Rightarrow> bool \<Rightarrow> player" where
  "setTrackRepeat p repeat =
     (if repeat then p\<lparr>trackRepeat := True, queueRepeat := False, dynamicRepeat := False\<rparr>
      else p\<lparr>trackRepeat := False, queueRepeat := False, dynamicRepeat := False\<rparr>)"

definition setQueueRepeat :: "player \<Rightarrow> bool \<Rightarrow> player" where
  "setQueueRepeat p repeat =
     (if repeat then p\<lparr>trackRepeat := False, queueRepeat := True, dynamicRepeat := False\<rparr>
      else p\<lparr>trackRepeat := False, queueRepeat := False, dynamicRepeat := False\<rparr>)"

text \<open>
  \<^verbatim>\<open>setDynamicRepeat(repeat, ms)\<close> throws before it changes anything when the queue, the
  current track included, holds at most one track.
\<close>

definition setDynamicRepeat :: "player \<Rightarrow> bool \<Rightarrow> nat \<Rightarrow> error + player" where
  "setDynamicRepeat p repeat ms =
     (if size_q (queue p) \<le> 1 then Inl RangeError
      else if repeat then
        Inr (p\<lparr>trackRepeat := False, queueRepeat := False, dynamicRepeat := True,
               dynamicLoopInterval := Some ms\<rparr>)
      else
        Inr (p\<lparr>dynamicLoopInterval := None, trackRepeat := False, queueRepeat := False,
               dynamicRepeat := False\<rparr>))"

subsection \<open>Track end\<close>

datatype TrackEndReason = finished | loadFailed | stopped | replaced | cleanup

text \<open>
  What the handlers do besides changing the player: the domain events they emit on the
  manager, and the asynchronous calls they start without awaiting them
  (\<^verbatim>\<open>player.play()\<close>, \<^verbatim>\<open>handleAutoplay\<close>), in the order of the source.
\<close>

datatype effect =
    EmitTrackEnd "track option" TrackEndReason
  | EmitQueueEnd "track option" TrackEndReason
  | CallPlay
  | CallHandleAutoplay "track option"

definition queueEnd :: "player \<Rightarrow> track option \<Rightarrow> TrackEndReason \<Rightarrow> player \<times> effect list" where
  "queueEnd p trk reason =
     (let p1 = p\<lparr>queue := (queue p)\<lparr>current := None\<rparr>, playing := isAutoplay p\<rparr>
      in if isAutoplay p then (p1, [CallHandleAutoplay trk])
         else (p1, [EmitQueueEnd trk reason]))"

text \<open>
  \<^verbatim>\<open>Node.trackEnd(player, track, payload)\<close> as \<^verbatim>\<open>handleEvent\<close> calls it, its only caller:
  the \<^verbatim>\<open>track\<close> argument is \<^verbatim>\<open>player.queue.current\<close> at dispatch. \<open>autoPlay\<close> is
  \<^verbatim>\<open>manager.options.autoPlay\<close>. The one throwing path is \<^verbatim>\<open>queue.add(queue.current)\<close>
  under queue repeat, when the current track carries no tag.
\<close>

definition trackEnd :: "bool \<Rightarrow> player \<Rightarrow> TrackEndReason \<Rightarrow> error + (player \<times> effect list)" where
  "trackEnd autoPlay p reason =
     (let trk = current (queue p) in
      if state p = MOVING \<or> state p = RESUMING then Inr (p, [])
      else if reason = loadFailed \<or> reason = cleanup then
        (let q1 = (queue p)\<lparr>previous := current (queue p)\<rparr>;
             (h, q2) = shift q1;
             p1 = p\<lparr>queue := q2\<lparr>current := h\<rparr>\<rparr>
         in if h = None then Inr (queueEnd p1 trk reason)
            else Inr (p1, EmitTrackEnd trk reason # (if autoPlay then [CallPlay] else [])))
      else if reason = replaced then
        Inr (p\<lparr>queue := (queue p)\<lparr>previous := current (queue p)\<rparr>\<rparr>, [EmitTrackEnd trk reason])
      else if trk \<noteq> None \<and> (trackRepeat p \<or> queueRepeat p) then
        (case (if trackRepeat p then Inr (unshift (queue p) (the trk))
               else add (queue p) (One (the trk)) None) of
           Inl e \<Rightarrow> Inl e
         | Inr q0 \<Rightarrow>
             (let q1 = q0\<lparr>previous := current q0\<rparr>;
                  (h, q2) = shift q1;
                  q3 = q2\<lparr>current := h\<rparr>
              in if reason = stopped then
                   (let (h', q4) = shift q3;
                        q5 = q4\<lparr>current := h'\<rparr>
                    in if h' = None then
                         (let (p', effs) = queueEnd (p\<lparr>queue := q5\<rparr>) trk reason
                          in Inr (p', EmitTrackEnd trk reason # effs))
                       else Inr (p\<lparr>queue := q5\<rparr>,
                              EmitTrackEnd trk reason # (if autoPlay then [CallPlay] else [])))
                 else Inr (p\<lparr>queue := q3\<rparr>,
                        EmitTrackEnd trk reason # (if autoPlay then [CallPlay] else []))))
      else if items (queue p) \<noteq> [] then
        (let q1 = (queue p)\<lparr>previous := current (queue p)\<rparr>;
             (h, q2) = shift q1;
             p1 = p\<lparr>queue := q2\<lparr>current := h\<rparr>\<rparr>
         in Inr (p1, EmitTrackEnd trk reason # (if autoPlay then [CallPlay] else [])))
      else Inr (queueEnd p trk reason))"

section \<open>Node connection lifecycle\<close>

text \<open>
  \<open>socket\<close> is \<^verbatim>\<open>this.socket\<close>: \<open>None\<close> for \<^verbatim>\<open>null\<close>, otherwise the socket's
  \<^verbatim>\<open>readyState\<close>. \<open>reconnectTimeout\<close> tells whether a callback scheduled by
  \<^verbatim>\<open>reconnect()\<close> is pending (not yet run, not cleared). \<open>registered\<close> tells whether the
  node is in \<^verbatim>\<open>manager.nodes\<close>; \<open>boundPlayers\<close> are the guilds of the players in
  \<^verbatim>\<open>manager.players\<close> whose node is this one; \<open>emitted\<close> is the log, oldest first, of
  what was emitted on the manager and of what the bound players were asked to do. \<open>retryAmount\<close> is \<^verbatim>\<open>options.retryAmount\<close>, \<open>\<infinity>\<close> by default.
\<close>

datatype readyState = WS_CONNECTING | WS_OPEN | WS_CLOSING | WS_CLOSED

datatype node_error = UnableToConnect enat | SocketError

datatype node_event =
    nodeConnect
  | nodeReconnect
  | nodeDisconnect int string
  | nodeError node_error
  | nodeDestroy
  | playerDestroy string
  | playerMoveNode string
  | playerHalted string

record node_state =
  retryAmount :: enat
  socket :: "readyState option"
  reconnectAttempts :: nat
  reconnectTimeout :: bool
  registered :: bool
  boundPlayers :: "string list"
  emitted :: "node_event list"

definition connected :: "node_state \<Rightarrow> bool" where
  "connected n = (case socket n of None \<Rightarrow> False | Some r \<Rightarrow> r = WS_OPEN)"

text \<open>\<^verbatim>\<open>connect()\<close>: nothing when connected; otherwise a new socket, which starts connecting.\<close>

definition connect :: "node_state \<Rightarrow> node_state" where
  "connect n = (if connected n then n else n\<lparr>socket := Some WS_CONNECTING\<rparr>)"

text \<open>
  \<^verbatim>\<open>destroy()\<close>: nothing unless connected. Otherwise each bound player is destroyed, the
  socket is closed with its listeners removed (its close event reaches no handler), the
  counter and the timer are reset and \<^verbatim>\<open>manager.destroyNode\<close> takes the node out of the
  collection; the nested \<^verbatim>\<open>node.destroy()\<close> there finds no socket and returns.
\<close>

definition destroy :: "node_state \<Rightarrow> node_state" where
  "destroy n =
     (if \<not> connected n then n
      else n\<lparr>emitted := emitted n @ map playerDestroy (boundPlayers n) @ [nodeDestroy],
             boundPlayers := [],
             socket := None,
             reconnectAttempts := 1,
             reconnectTimeout := False,
             registered := False\<rparr>)"

text \<open>\<^verbatim>\<open>reconnect()\<close> schedules the callback; \<open>reconnect_timer\<close> is the callback running.\<close>

definition reconnect :: "node_state \<Rightarrow> node_state" where
  "reconnect n = n\<lparr>reconnectTimeout := True\<rparr>"

definition reconnect_timer :: "node_state \<Rightarrow> node_state" where
  "reconnect_timer n0 =
     (let n = n0\<lparr>reconnectTimeout := False\<rparr> in
      if enat (reconnectAttempts n) \<ge> retryAmount n then
        destroy (n\<lparr>emitted := emitted n @ [nodeError (UnableToConnect (retryAmount n))]\<rparr>)
      else
        (let n1 = n\<lparr>socket := None, emitted := emitted n @ [nodeReconnect]\<rparr>;
             n2 = connect n1
         in n2\<lparr>reconnectAttempts := reconnectAttempts n2 + 1\<rparr>))"

text \<open>The handler of the socket's open event.\<close>

definition "open" :: "node_state \<Rightarrow> node_state" where
  "open n = (let n1 = (if reconnectTimeout n then n\<lparr>reconnectTimeout := False\<rparr> else n)
             in n1\<lparr>emitted := emitted n1 @ [nodeConnect]\<rparr>)"

text \<open>
  The handler of the socket's close event. \<open>autoMove\<close> is \<^verbatim>\<open>manager.options.autoMove\<close>:
  each bound player is asked to move to another node, or has \<^verbatim>\<open>playing\<close> set to false.
\<close>

definition close :: "bool \<Rightarrow> int \<Rightarrow> string \<Rightarrow> node_state \<Rightarrow> node_state" where
  "close autoMove code reason n =
     (let n1 = n\<lparr>emitted := emitted n @ [nodeDisconnect code reason]\<rparr>;
          n2 = (if code \<noteq> 1000 \<or> reason \<noteq> ''destroy'' then reconnect n1 else n1)
      in n2\<lparr>emitted := emitted n2 @
              map (if autoMove then playerMoveNode else playerHalted) (boundPlayers n2)\<rparr>)"

text \<open>
  The socket library sets \<^verbatim>\<open>readyState\<close> before it calls a handler: \<^verbatim>\<open>OPEN\<close> before the
  open handler, \<^verbatim>\<open>CLOSED\<close> before the close handler.
\<close>

definition socket_opened :: "node_state \<Rightarrow> node_state" where
  "socket_opened n = open (n\<lparr>socket := Some WS_OPEN\<rparr>)"

definition socket_closed :: "bool \<Rightarrow> int \<Rightarrow> string \<Rightarrow> node_state \<Rightarrow> node_state" where
  "socket_closed autoMove code reason n = close autoMove code reason (n\<lparr>socket := Some WS_CLOSED\<rparr>)"

text \<open>
  One failed round: the socket closes with code 1006 (abnormal closure) and the scheduled
  callback runs. \<open>closes k\<close> is \<open>k\<close> such rounds in a row.
\<close>

definition close_round :: "bool \<Rightarrow> node_state \<Rightarrow> node_state" where
  "close_round autoMove n = reconnect_timer (socket_closed autoMove 1006 [] n)"

fun closes :: "bool \<Rightarrow> nat \<Rightarrow> node_state \<Rightarrow> node_state" where
  "closes autoMove 0 n = n"
| "closes autoMove (Suc k) n = closes autoMove k (close_round autoMove n)"

text \<open>A node with an open socket, as after the constructor, \<^verbatim>\<open>connect()\<close> and a first open.\<close>

definition live_node :: "enat \<Rightarrow> string list \<Rightarrow> node_state" where
  "live_node r gs = \<lparr>retryAmount = r, socket = Some WS_OPEN, reconnectAttempts = 1,
     reconnectTimeout = False, registered = True, boundPlayers = gs, emitted = []\<rparr>"

definition fatal_errors :: "node_state \<Rightarrow> nat" where
  "fatal_errors n = length (filter (\<lambda>e. e = nodeError (UnableToConnect (retryAmount n))) (emitted n))"

section \<open>Calls to nodes and to the voice gateway\<close>

text \<open>
  The body of the player update that \<^verbatim>\<open>moveNode\<close> and the resume push with
  \<^verbatim>\<open>rest.updatePlayer\<close>; \<open>u_filters\<close> is the \<^verbatim>\<open>filters\<close> object, built field by field.
  The prefixes \<open>u_\<close>, \<open>v_\<close>, and below \<open>s_\<close> and \<open>r_\<close>, keep the fields \<^verbatim>\<open>position\<close>,
  \<^verbatim>\<open>volume\<close>, \<^verbatim>\<open>paused\<close>, \<^verbatim>\<open>guild\<close> and the like of these objects apart from those of
  the player.
\<close>

record update_data =
  encodedTrack :: "string option"
  u_position :: int
  u_volume :: int
  u_paused :: bool
  u_filters :: Filters

record voice_data =
  v_token :: string
  v_endpoint :: string
  v_sessionId :: "string option"

text \<open>
  Calls leaving the client, each with the identifier of the node or the guild it goes to:
  the two player updates, the removal of a player from a node, the voice-state payload sent
  through \<^verbatim>\<open>manager.options.send\<close>, and the timer of \<^verbatim>\<open>moveNode\<close> that sets the state back
  to \<^verbatim>\<open>CONNECTED\<close>.
\<close>

datatype node_call =
    updatePlayer string string update_data
  | updatePlayerVoice string string voice_data
  | destroyPlayer string string
  | sendVoiceState string "string option"
  | setTimeoutConnected nat

section \<open>Moving a player to another node\<close>

text \<open>
  What \<^verbatim>\<open>moveNode\<close> reads of the manager: \<open>nodes\<close> is \<^verbatim>\<open>manager.nodes\<close> in insertion
  order, each identifier with the node's \<^verbatim>\<open>connected\<close>; \<open>leastLoadNodes\<close> holds the
  identifiers of \<^verbatim>\<open>manager.leastLoadNodes\<close> in its order, which the manager computes by
  a floating-point comparison of loads and which is taken as given.
\<close>

record manager_view =
  nodes :: "(string \<times> bool) list"
  leastLoadNodes :: "string list"

definition truthy :: "string option \<Rightarrow> bool" where
  "truthy v = (case v of None \<Rightarrow> False | Some s \<Rightarrow> s \<noteq> [])"

text \<open>
  \<^verbatim>\<open>node || leastLoadNodes.first().options.identifier || nodes.filter(connected).first()...\<close>:
  reading \<^verbatim>\<open>options\<close> of \<^verbatim>\<open>undefined\<close> throws a \<^verbatim>\<open>TypeError\<close>.
\<close>

definition resolve_target :: "manager_view \<Rightarrow> string option \<Rightarrow> error + string" where
  "resolve_target m tgt =
     (if truthy tgt then Inr (the tgt)
      else case leastLoadNodes m of
             [] \<Rightarrow> Inl TypeError
           | i # _ \<Rightarrow>
               if i \<noteq> [] then Inr i
               else (case filter snd (nodes m) of
                       [] \<Rightarrow> Inl TypeError
                     | (i', _) # _ \<Rightarrow> Inr i'))"

text \<open>
  \<^verbatim>\<open>Player.moveNode(node?)\<close>. \<open>srcConnected\<close> is \<^verbatim>\<open>currentNode.connected\<close>; \<open>fetched\<close> is
  \<^verbatim>\<open>fetchedPlayer.track.info.position\<close> of the answer of the source node, \<open>None\<close> when
  the answer is \<^verbatim>\<open>null\<close> or has no track, where the read throws. The result is the calls
  made, in order, and the player or the error thrown; the calls made before a throw stay
  made.
\<close>

definition moveNode ::
  "manager_view \<Rightarrow> player \<Rightarrow> string option \<Rightarrow> bool \<Rightarrow> int option \<Rightarrow> node_call list \<times> (error + player)" where
  "moveNode m p tgt srcConnected fetched =
     (case resolve_target m tgt of
        Inl e \<Rightarrow> ([], Inl e)
      | Inr dest \<Rightarrow>
          if map_of (nodes m) dest = None then ([], Inl RangeError)
          else if node p = dest then ([], Inr p)
          else if srcConnected \<and> fetched = None then ([], Inl TypeError)
          else
            (let pos = (if srcConnected then the fetched else position p);
                 push1 = updatePlayer dest (guild p)
                   \<lparr>encodedTrack = map_option track (current (queue p)),
                    u_position = pos,
                    u_volume = volume p,
                    u_paused = paused p,
                    u_filters = \<lparr>distortion = distortion (filters p),
                                 equalizer = equalizer (filters p),
                                 karaoke = karaoke (filters p),
                                 rotation = rotation (filters p),
                                 timescale = timescale (filters p),
                                 vibrato = vibrato (filters p),
                                 f_volume = f_volume (filters p)\<rparr>\<rparr>
             in case event (voiceState p) of
                  None \<Rightarrow> ([push1], Inl TypeError)
                | Some ev \<Rightarrow>
                    (let push2 = updatePlayerVoice dest (guild p)
                           \<lparr>v_token = token ev, v_endpoint = endpoint ev,
                            v_sessionId = sessionId (voiceState p)\<rparr>;
                         old = node p;
                         p1 = p\<lparr>node := dest, state := MOVING\<rparr>
                     in ([push1, push2]
                           @ (if map_of (nodes m) old = Some True then [destroyPlayer old (guild p)] else [])
                           @ [setTimeoutConnected 5000],
                         Inr p1))))"

section \<open>Session resume\<close>

text \<open>
  The per-guild snapshot that \<^verbatim>\<open>Player.save\<close> stores under \<^verbatim>\<open>players.<guild>\<close>, with the
  fields the resume reads; a field that is absent or \<^verbatim>\<open>null\<close> is \<open>None\<close>.
  \<open>no_snapshot\<close> is the \<^verbatim>\<open>{}\<close> taken when the store has nothing under the key.
\<close>

record snapshot =
  s_guild :: "string option"
  s_voiceChannel :: "string option"
  s_textChannel :: "string option"
  s_volume :: "int option"
  s_current :: "string option"
  s_queue :: "string list"

definition no_snapshot :: snapshot where
  "no_snapshot = \<lparr>s_guild = None, s_voiceChannel = None, s_textChannel = None,
     s_volume = None, s_current = None, s_queue = []\<rparr>"

text \<open>A player as the node reports it in the answer to \<^verbatim>\<open>getAllPlayers\<close>.\<close>

record remote_player =
  guildId :: string
  r_filters :: Filters
  r_volume :: int
  r_position :: int

text \<open>
  \<open>players\<close> is \<^verbatim>\<open>manager.players\<close>, \<open>db\<close> the persisted store under the prefix
  \<^verbatim>\<open>players.\<close>, both keyed by guild; \<open>calls\<close> are the calls made, oldest first.
\<close>

record manager_state =
  players :: "string \<rightharpoonup> player"
  db :: "string \<rightharpoonup> snapshot"
  calls :: "node_call list"

text \<open>
  \<^verbatim>\<open>manager.create(options)\<close> with the options the resume passes: the player of the guild
  if there is one, else a new player. \<^verbatim>\<open>playerCheck\<close> wants a guild made of digits. The
  node named in the options is the node that handles the message, which is in
  \<^verbatim>\<open>manager.nodes\<close>.
\<close>

definition digits :: "string \<Rightarrow> bool" where
  "digits g = (g \<noteq> [] \<and> list_all (\<lambda>c. c \<in> set ''0123456789'') g)"

definition create :: "manager_state \<Rightarrow> snapshot \<Rightarrow> string \<Rightarrow> error + (player \<times> manager_state)" where
  "create m prev nid =
     (let g = the (s_guild prev) in
      case players m g of
        Some pl \<Rightarrow> Inr (pl, m)
      | None \<Rightarrow>
          if \<not> digits g then Inl TypeError
          else (let pl = (new_player g nid)\<lparr>
                       voiceChannel := (if truthy (s_voiceChannel prev) then s_voiceChannel prev else None),
                       textChannel := (if truthy (s_textChannel prev) then s_textChannel prev else None),
                       volume := (case s_volume prev of None \<Rightarrow> 80 | Some v \<Rightarrow> v)\<rparr>
                in Inr (pl, m\<lparr>players := (players m)(g \<mapsto> pl)\<rparr>)))"

text \<open>\<^verbatim>\<open>TrackUtils.build\<close> on a decoded track: the track, tagged.\<close>

definition build :: "track \<Rightarrow> track" where
  "build t = t\<lparr>symbol := TRACK_SYMBOL\<rparr>"

text \<open>
  The rest of one round of the resume loop, after the player is made and found to have had
  a current track: the queue is rebuilt from the decoded tracks, filters, volume and
  position are taken from the remote player, the voice connection is made again and the
  state is pushed to the node. \<open>decode\<close> is \<^verbatim>\<open>manager.decodeTracks\<close>. The player object is
  changed in place, so what was done before a throw stays done.
\<close>

definition put_player :: "manager_state \<Rightarrow> player \<Rightarrow> manager_state" where
  "put_player m pl = m\<lparr>players := (players m)(guild pl \<mapsto> pl)\<rparr>"

definition resume_player ::
  "(string list \<Rightarrow> track list) \<Rightarrow> manager_state \<Rightarrow> player \<Rightarrow> snapshot \<Rightarrow> remote_player
     \<Rightarrow> error option \<times> manager_state" where
  "resume_player decode m pl prev rp =
     (let cur = the (s_current prev);
          pl1 = pl\<lparr>state := RESUMING\<rparr>;
          decoded = decode (s_queue prev @ [cur])
      in case find (\<lambda>t. track t = cur) decoded of
           None \<Rightarrow> (Some RangeError, put_player m pl1)
         | Some t \<Rightarrow>
             (case add (queue pl1) (One (build t)) None of
                Inl e \<Rightarrow> (Some e, put_player m pl1)
              | Inr q1 \<Rightarrow>
                  (case (if s_queue prev \<noteq> []
                         then add q1 (Many (map build (filter (\<lambda>t. track t \<noteq> cur) decoded))) None
                         else Inr q1) of
                     Inl e \<Rightarrow> (Some e, put_player m (pl1\<lparr>queue := q1\<rparr>))
                   | Inr q2 \<Rightarrow>
                       (let pl2 = pl1\<lparr>queue := q2, filters := r_filters rp,
                                      volume := r_volume rp, position := r_position rp\<rparr>
                        in if \<not> truthy (voiceChannel pl2) then (Some RangeError, put_player m pl2)
                           else
                             (let pl3 = pl2\<lparr>state := CONNECTED\<rparr>;
                                  m1 = put_player m pl3
                              in (None, m1\<lparr>calls := calls m1 @
                                    [sendVoiceState (guild pl3) (voiceChannel pl3),
                                     updatePlayer (node pl3) (guild pl3)
                                       \<lparr>encodedTrack = map_option track (current (queue pl3)),
                                        u_position = r_position rp,
                                        u_volume = volume pl3,
                                        u_paused = paused pl3,
                                        u_filters = filters pl3\<rparr>]\<rparr>))))))"

text \<open>
  The loop over the players the node reports, in the \<^verbatim>\<open>ready\<close> branch of
  \<^verbatim>\<open>Node.message\<close>. Each \<^verbatim>\<open>return\<close> of the source ends the handler, and the loop with
  it; so does a throw. \<open>nid\<close> is the identifier of the node.
\<close>

fun resume_loop ::
  "(string list \<Rightarrow> track list) \<Rightarrow> string \<Rightarrow> manager_state \<Rightarrow> remote_player list
     \<Rightarrow> error option \<times> manager_state" where
  "resume_loop decode nid m [] = (None, m)"
| "resume_loop decode nid m (rp # rest) =
     (if players m (guildId rp) \<noteq> None then (None, m)
      else
        (let prev = (case db m (guildId rp) of None \<Rightarrow> no_snapshot | Some s \<Rightarrow> s) in
         if \<not> truthy (s_guild prev) \<or> \<not> truthy (s_voiceChannel prev) \<or> \<not> truthy (s_textChannel prev)
         then (None, m\<lparr>db := (db m)(guildId rp := None)\<rparr>)
         else
           (case create m prev nid of
              Inl e \<Rightarrow> (Some e, m)
            | Inr (pl, m1) \<Rightarrow>
                if \<not> truthy (s_current prev) then (None, m1)
                else
                  (case resume_player decode m1 pl prev rp of
                     (Some e, m2) \<Rightarrow> (Some e, m2)
                   | (None, m2) \<Rightarrow> resume_loop decode nid m2 rest))))"

section \<open>Sequences of calls\<close>

text \<open>
  A mutation of a queue: the methods of \<^verbatim>\<open>Queue\<close> and the two array operations that the
  track-end handling uses. \<open>mutate\<close> is the queue after the call; a call that throws does so
  before it changes anything, which leaves the queue as it was.
\<close>

datatype mutation =
    Add track_arg "int option"
  | Remove "int option" "int option"
  | Clear
  | Shuffle "nat \<Rightarrow> nat"
  | Shift
  | Unshift track

fun mutate :: "mutation \<Rightarrow> queue \<Rightarrow> queue" where
  "mutate (Add a off) q = (case add q a off of Inl e \<Rightarrow> q | Inr q' \<Rightarrow> q')"
| "mutate (Remove s e) q = (case remove q s e of Inl e \<Rightarrow> q | Inr (removed, q') \<Rightarrow> q')"
| "mutate Clear q = clear q"
| "mutate (Shuffle rnd) q = shuffle rnd q"
| "mutate Shift q = snd (shift q)"
| "mutate (Unshift t) q = unshift q t"

text \<open>The queue of the player after a track-end event has been handled.\<close>

definition after_trackEnd :: "bool \<Rightarrow> player \<Rightarrow> TrackEndReason \<Rightarrow> queue" where
  "after_trackEnd autoPlay p reason =
     (case trackEnd autoPlay p reason of Inl e \<Rightarrow> queue p | Inr (p', effs) \<Rightarrow> queue p')"

text \<open>
  Calls of the three repeat setters. In a sequence of calls a throwing call leaves the
  player as it was and the next call is made on it.
\<close>

datatype repeat_call = SetTrackRepeat bool | SetQueueRepeat bool | SetDynamicRepeat bool nat

fun call :: "player \<Rightarrow> repeat_call \<Rightarrow> error + player" where
  "call p (SetTrackRepeat r) = Inr (setTrackRepeat p r)"
| "call p (SetQueueRepeat r) = Inr (setQueueRepeat p r)"
| "call p (SetDynamicRepeat r ms) = setDynamicRepeat p r ms"

fun calls_seq :: "player \<Rightarrow> repeat_call list \<Rightarrow> player" where
  "calls_seq p [] = p"
| "calls_seq p (c # cs) = calls_seq (case call p c of Inl e \<Rightarrow> p | Inr p' \<Rightarrow> p') cs"

definition repeat_flags :: "player \<Rightarrow> bool \<times> bool \<times> bool" where
  "repeat_flags p = (trackRepeat p, queueRepeat p, dynamicRepeat p)"

definition at_most_one :: "player \<Rightarrow> bool" where
  "at_most_one p = (length (filter id [trackRepeat p, queueRepeat p, dynamicRepeat p]) \<le> 1)"

definition wants :: "repeat_call \<Rightarrow> bool \<times> bool \<times> bool" where
  "wants c = (case c of SetTrackRepeat r \<Rightarrow> (r, False, False)
                      | SetQueueRepeat r \<Rightarrow> (False, r, False)
                      | SetDynamicRepeat r ms \<Rightarrow> (False, False, r))"

section \<open>Concrete inputs\<close>

definition trackA :: track where
  "trackA = \<lparr>track = ''QAAA'', title = ''A'', author = ''a'', duration = 1000,
     identifier = ''idA'', uri = ''https://example.org/a'', symbol = TRACK_SYMBOL\<rparr>"

definition trackB :: track where
  "trackB = \<lparr>track = ''QBBB'', title = ''B'', author = ''b'', duration = 2000,
     identifier = ''idB'', uri = ''https://example.org/b'', symbol = TRACK_SYMBOL\<rparr>"

definition trackX :: track where
  "trackX = \<lparr>track = ''QXXX'', title = ''X'', author = ''x'', duration = 3000,
     identifier = ''idX'', uri = ''https://example.org/x'', symbol = TRACK_SYMBOL\<rparr>"

text \<open>The player of the track-end matrix: current A, pending B, no repeat mode.\<close>

definition player_AB :: player where
  "player_AB = (new_player ''1'' ''main'')\<lparr>
     queue := \<lparr>items = [trackB], current = Some trackA, previous = None\<rparr>,
     state := CONNECTED\<rparr>"

definition player_R :: player where
  "player_R = player_AB\<lparr>trackRepeat := True\<rparr>"

text \<open>A player with one track, the current one, and track repeat on.\<close>

definition player_one :: player where
  "player_one = (new_player ''1'' ''main'')\<lparr>
     queue := \<lparr>items = [], current = Some trackA, previous = None\<rparr>,
     trackRepeat := True,
     state := CONNECTED\<rparr>"

definition queue_ABX :: queue where
  "queue_ABX = \<lparr>items = [trackA, trackB, trackX], current = None, previous = None\<rparr>"

text \<open>A snapshot without a voice channel, a remote player, and a store with two such snapshots.\<close>

definition stale :: "string \<Rightarrow> snapshot" where
  "stale g = no_snapshot\<lparr>s_guild := Some g, s_textChannel := Some ''30''\<rparr>"

definition remote :: "string \<Rightarrow> remote_player" where
  "remote g = \<lparr>guildId = g, r_filters = new_Filters, r_volume = 80, r_position = 0\<rparr>"

definition manager_two_stale :: manager_state where
  "manager_two_stale = \<lparr>players = Map.empty, db = [''1'' \<mapsto> stale ''1'', ''2'' \<mapsto> stale ''2''],
     calls = []\<rparr>"

text \<open>Two connected nodes, and the player above on the first of them with a voice session.\<close>

definition two_nodes :: manager_view where
  "two_nodes = \<lparr>nodes = [(''main'', True), (''backup'', True)],
     leastLoadNodes = [''backup'', ''main'']\<rparr>"

definition player_live :: player where
  "player_live = player_AB\<lparr>position := 1500,
     voiceState := \<lparr>event = Some \<lparr>token = ''tok'', endpoint = ''eu.example.org:443''\<rparr>,
                    sessionId = Some ''vs1''\<rparr>\<rparr>"

section \<open>Track-end handling\<close>

text \<open>
  C4. For a player that is neither \<^verbatim>\<open>MOVING\<close> nor \<^verbatim>\<open>RESUMING\<close>, a track-end event with
  reason \<^verbatim>\<open>replaced\<close> emits the track-end event and nothing else, and sets \<open>previous\<close>
  to the current track; the current track and the pending sequence are as before, and so
  is every other field of the player.
\<close>

theorem trackEnd_replaced:
  assumes "state p \<noteq> MOVING" and "state p \<noteq> RESUMING"
  shows "trackEnd autoPlay p replaced =
           Inr (p\<lparr>queue := (queue p)\<lparr>previous := current (queue p)\<rparr>\<rparr>,
                [EmitTrackEnd (current (queue p)) replaced])"
  using assms by (simp add: trackEnd_def Let_def)

text \<open>
  C4 on the player with current A and pending B: \<open>previous\<close> becomes A, A stays current,
  B stays pending, one event.
\<close>

theorem trackEnd_replaced_witness:
  "trackEnd True player_AB replaced =
     Inr (player_AB\<lparr>queue := \<lparr>items = [trackB], current = Some trackA, previous = Some trackA\<rparr>\<rparr>,
          [EmitTrackEnd (Some trackA) replaced])"
  using trackEnd_replaced [of player_AB True]
  by (simp add: player_AB_def new_player_def)

text \<open>
  C1, as the code has it. With current A, pending B and track repeat on, a track-end event
  with reason \<^verbatim>\<open>stopped\<close> puts A back at the head and takes it again as current, and the
  second dequeue that this reason asks for then makes B current: afterwards \<open>previous\<close> is
  A, the current track is B and nothing is pending.
\<close>

theorem trackEnd_stopped_trackRepeat:
  assumes "current (queue p) = Some A" and "items (queue p) = [B]" and "trackRepeat p"
    and "state p \<noteq> MOVING" and "state p \<noteq> RESUMING"
  shows "trackEnd autoPlay p stopped =
           Inr (p\<lparr>queue := (queue p)\<lparr>items := [], current := Some B, previous := Some A\<rparr>\<rparr>,
                EmitTrackEnd (Some A) stopped # (if autoPlay then [CallPlay] else []))"
  using assms by (simp add: trackEnd_def unshift_def shift_def Let_def)

text \<open>C1 as the code has it, on tracks A and B.\<close>

theorem trackEnd_stopped_trackRepeat_witness:
  "trackEnd True player_R stopped =
     Inr (player_R\<lparr>queue := \<lparr>items = [], current = Some trackB, previous = Some trackA\<rparr>\<rparr>,
          [EmitTrackEnd (Some trackA) stopped, CallPlay])"
  using trackEnd_stopped_trackRepeat [of player_R trackA trackB True]
  by (simp add: player_R_def player_AB_def new_player_def)

text \<open>
  C1 as stated fails on tracks A and B: the event does not leave A current with
  \<open>previous\<close> A.
\<close>

theorem trackEnd_stopped_trackRepeat_counterexample:
  "\<not> (case trackEnd True player_R stopped of
        Inl e \<Rightarrow> False
      | Inr (p', effs) \<Rightarrow> current (queue p') = Some trackA \<and> previous (queue p') = Some trackA)"
  by (simp add: trackEnd_def unshift_def shift_def Let_def player_R_def player_AB_def
      new_player_def trackA_def trackB_def)

section \<open>Queue\<close>

lemma length_shuffle_loop:
  "i < length xs \<or> i = 0 \<Longrightarrow> length (shuffle_loop rnd i xs) = length xs"
  by (induction i arbitrary: xs) (auto simp: Let_def)

text \<open>
  C3. After every mutation of a queue (\<open>add\<close> with or without offset, \<open>remove\<close>,
  \<open>clear\<close>, \<open>shuffle\<close>, a shift or an unshift) and after the handling of a track-end
  event, \<open>totalSize\<close> is the length of the pending sequence, plus one when there is a
  current track.
\<close>

theorem totalSize_after_mutation:
  "totalSize (mutate mu q) =
     length (items (mutate mu q)) + (if current (mutate mu q) \<noteq> None then 1 else 0)
   \<and> totalSize (after_trackEnd autoPlay p reason) =
     length (items (after_trackEnd autoPlay p reason))
       + (if current (after_trackEnd autoPlay p reason) \<noteq> None then 1 else 0)"
  by (simp add: totalSize_def)

text \<open>
  C5, as the code has it. On a queue without a current track, \<open>add\<close> with a non-empty
  batch of tagged tracks makes the first of them current and appends the others, in their
  order, to the pending sequence; when nothing was pending, the pending sequence is then
  the batch without its first element.
\<close>

theorem add_batch_no_current:
  assumes "current q = None" and "ts \<noteq> []" and "list_all tagged ts"
  shows "add q (Many ts) off = Inr (q\<lparr>current := Some (hd ts), items := items q @ tl ts\<rparr>)
         \<and> (items q = [] \<longrightarrow> add q (Many ts) off = Inr (q\<lparr>current := Some (hd ts), items := tl ts\<rparr>))"
  using assms by (cases ts) (simp_all add: add_def)

text \<open>C5 as the code has it, on a new queue and the batch A, B, X.\<close>

theorem add_batch_no_current_witness:
  "add new_queue (Many [trackA, trackB, trackX]) None =
     Inr \<lparr>items = [trackB, trackX], current = Some trackA, previous = None\<rparr>"
  using add_batch_no_current [of new_queue "[trackA, trackB, trackX]" None]
  by (simp add: new_queue_def tagged_def trackA_def trackB_def trackX_def)

text \<open>
  C5 as stated fails on a queue without a current track in which X is pending: after
  \<open>add\<close> of the batch A, B the pending sequence is X, B, not the batch without its first
  element.
\<close>

theorem add_batch_no_current_counterexample:
  "add \<lparr>items = [trackX], current = None, previous = None\<rparr> (Many [trackA, trackB]) None =
     Inr \<lparr>items = [trackX, trackB], current = Some trackA, previous = None\<rparr>
   \<and> [trackX, trackB] \<noteq> tl [trackA, trackB]"
  by (simp add: add_def tagged_def trackA_def trackB_def trackX_def)

lemma splice_in_range:
  assumes "0 \<le> s" and "s \<le> int (length xs)" and "0 \<le> d"
  shows "splice xs s d [] = (take (nat d) (drop (nat s) xs), take (nat s) xs @ drop (nat s + nat d) xs)"
proof -
  have "take (nat (min d (int (length xs) - s))) (drop (nat s) xs) = take (nat d) (drop (nat s) xs)"
    using assms by (cases "d \<le> int (length xs) - s") (simp_all add: min_def)
  moreover have "drop (nat s + nat (min d (int (length xs) - s))) xs = drop (nat s + nat d) xs"
    using assms by (cases "d \<le> int (length xs) - s") (simp_all add: min_def)
  ultimately show ?thesis
    using assms by (simp add: splice_def Let_def min_absorb1 max_absorb1)
qed

text \<open>
  C6, as the code has it. \<open>remove(start, end)\<close> throws whenever \<open>start \<ge> end\<close> or
  \<open>start \<ge> length\<close>; otherwise, for \<open>start \<ge> 0\<close>, it removes the tracks at the
  positions from \<open>start\<close> up to but not including \<open>end\<close> and nothing else.
  \<open>remove(position)\<close> with \<open>0 \<le> position < length\<close> removes the one track at that
  position; with \<open>position \<ge> length\<close> it removes nothing and does not throw.
\<close>

theorem remove_range_and_position:
  "((start \<ge> e \<or> start \<ge> int (length (items q))) \<longrightarrow>
       remove q (Some start) (Some e) = Inl RangeError)
   \<and> (0 \<le> start \<and> start < e \<and> start < int (length (items q)) \<longrightarrow>
       remove q (Some start) (Some e) =
         Inr (take (nat (e - start)) (drop (nat start) (items q)),
              q\<lparr>items := take (nat start) (items q) @ drop (nat e) (items q)\<rparr>))
   \<and> (0 \<le> pos \<and> pos < int (length (items q)) \<longrightarrow>
       remove q (Some pos) None =
         Inr ([items q ! nat pos],
              q\<lparr>items := take (nat pos) (items q) @ drop (Suc (nat pos)) (items q)\<rparr>)
       \<and> length (take (nat pos) (items q) @ drop (Suc (nat pos)) (items q)) + 1 = length (items q))
   \<and> (pos \<ge> int (length (items q)) \<longrightarrow> remove q (Some pos) None = Inr ([], q))"
proof (intro conjI impI)
  assume "start \<ge> e \<or> start \<ge> int (length (items q))"
  then show "remove q (Some start) (Some e) = Inl RangeError"
    by (auto simp: remove_def)
next
  assume a: "0 \<le> start \<and> start < e \<and> start < int (length (items q))"
  then have "splice (items q) start (e - start) [] =
      (take (nat (e - start)) (drop (nat start) (items q)),
       take (nat start) (items q) @ drop (nat start + nat (e - start)) (items q))"
    by (intro splice_in_range) auto
  moreover have "nat start + nat (e - start) = nat e" using a by auto
  ultimately show "remove q (Some start) (Some e) =
         Inr (take (nat (e - start)) (drop (nat start) (items q)),
              q\<lparr>items := take (nat start) (items q) @ drop (nat e) (items q)\<rparr>)"
    using a by (simp add: remove_def)
next
  assume a: "0 \<le> pos \<and> pos < int (length (items q))"
  then have "splice (items q) pos 1 [] =
      (take (nat 1) (drop (nat pos) (items q)),
       take (nat pos) (items q) @ drop (nat pos + nat 1) (items q))"
    by (intro splice_in_range) auto
  moreover have "take (Suc 0) (drop (nat pos) (items q)) = [items q ! nat pos]"
  proof -
    have "nat pos < length (items q)" using a by auto
    then show ?thesis by (simp add: Cons_nth_drop_Suc [symmetric])
  qed
  ultimately show "remove q (Some pos) None =
         Inr ([items q ! nat pos],
              q\<lparr>items := take (nat pos) (items q) @ drop (Suc (nat pos)) (items q)\<rparr>)"
    by (simp add: remove_def)
next
  assume a: "0 \<le> pos \<and> pos < int (length (items q))"
  then show "length (take (nat pos) (items q) @ drop (Suc (nat pos)) (items q)) + 1 = length (items q)"
    by auto
next
  assume "pos \<ge> int (length (items q))"
  then show "remove q (Some pos) None = Inr ([], q)"
    by (simp add: remove_def splice_def Let_def min_absorb2)
qed

text \<open>
  C6 as the code has it, on the pending sequence A, B, X: the range from 1 to 3, the
  position 0, the rejected range from 3 to 2, and the position 5 beyond the end.
\<close>

theorem remove_range_and_position_witness:
  "remove queue_ABX (Some 1) (Some 3) = Inr ([trackB, trackX], queue_ABX\<lparr>items := [trackA]\<rparr>)
   \<and> remove queue_ABX (Some 0) None = Inr ([trackA], queue_ABX\<lparr>items := [trackB, trackX]\<rparr>)
   \<and> remove queue_ABX (Some 3) (Some 2) = Inl RangeError
   \<and> remove queue_ABX (Some 5) None = Inr ([], queue_ABX)"
  using remove_range_and_position [where start = 1 and e = 3 and q = queue_ABX and pos = 0]
    remove_range_and_position [where start = 3 and e = 2 and q = queue_ABX and pos = 5]
  by (simp add: queue_ABX_def)

text \<open>
  C6 as stated fails on the pending sequence A, B, X: \<open>remove(5)\<close> removes no track, and
  \<open>remove(-1, 1)\<close>, which is not rejected, removes X at the end and not A.
\<close>

theorem remove_range_and_position_counterexample:
  "remove queue_ABX (Some 5) None = Inr ([], queue_ABX)
   \<and> remove queue_ABX (Some (- 1)) (Some 1) = Inr ([trackX], queue_ABX\<lparr>items := [trackA, trackB]\<rparr>)
   \<and> [trackX] \<noteq> [trackA]"
  by (simp add: remove_def splice_def queue_ABX_def trackA_def trackX_def)

section \<open>Repeat modes\<close>

lemma call_flags: "call p c = Inr p' \<Longrightarrow> repeat_flags p' = wants c"
  by (cases c) (auto simp: repeat_flags_def wants_def setTrackRepeat_def setQueueRepeat_def
      setDynamicRepeat_def split: if_splits)

lemma call_throws: "call p c = Inl e \<Longrightarrow> \<exists>r ms. c = SetDynamicRepeat r ms \<and> size_q (queue p) \<le> 1"
  by (cases c) (auto simp: setDynamicRepeat_def split: if_splits)

lemma wants_at_most_one: "repeat_flags p = wants c \<Longrightarrow> at_most_one p"
  by (cases c) (auto simp: repeat_flags_def wants_def at_most_one_def)

lemma call_keeps: "at_most_one p \<Longrightarrow> at_most_one (case call p c of Inl e \<Rightarrow> p | Inr p' \<Rightarrow> p')"
  by (cases "call p c") (auto dest: call_flags wants_at_most_one)

lemma calls_seq_keeps: "at_most_one p \<Longrightarrow> at_most_one (calls_seq p cs)"
proof (induction cs arbitrary: p)
  case Nil
  then show ?case by simp
next
  case (Cons c cs)
  from Cons.prems have "at_most_one (case call p c of Inl e \<Rightarrow> p | Inr p' \<Rightarrow> p')"
    by (rule call_keeps)
  then show ?case using Cons.IH by simp
qed

text \<open>
  C10, as the code has it. At most one of \<open>trackRepeat\<close>, \<open>queueRepeat\<close>,
  \<open>dynamicRepeat\<close> is true after any sequence of calls of the three setters, on a new
  player and on any player of which it was true before. \<open>setTrackRepeat\<close> and
  \<open>setQueueRepeat\<close> always take effect, \<open>setDynamicRepeat\<close> does when the total size
  of the queue is more than one: enabling a mode then leaves that flag true and the other
  two false, disabling a mode leaves all three false. On a queue of total size at most one
  \<open>setDynamicRepeat\<close>, enabling or disabling, throws and leaves the player, its three
  flags included, as it was.
\<close>

theorem repeat_modes_exclusive:
  "(at_most_one p \<longrightarrow> at_most_one (calls_seq p cs))
   \<and> at_most_one (calls_seq (new_player g n) cs)
   \<and> repeat_flags (setTrackRepeat p r) = (r, False, False)
   \<and> repeat_flags (setQueueRepeat p r) = (False, r, False)
   \<and> (1 < size_q (queue p) \<longrightarrow>
        (\<exists>p'. setDynamicRepeat p r ms = Inr p' \<and> repeat_flags p' = (False, False, r)))
   \<and> (size_q (queue p) \<le> 1 \<longrightarrow>
        setDynamicRepeat p r ms = Inl RangeError \<and> calls_seq p [SetDynamicRepeat r ms] = p)
   \<and> (call p c = Inl e \<longrightarrow> (\<exists>r ms. c = SetDynamicRepeat r ms) \<and> size_q (queue p) \<le> 1)"
proof -
  have fresh: "at_most_one (new_player g n)"
    by (simp add: at_most_one_def new_player_def)
  have thrown: "call p c = Inl e \<longrightarrow> (\<exists>r ms. c = SetDynamicRepeat r ms) \<and> size_q (queue p) \<le> 1"
    using call_throws by blast
  have t: "repeat_flags (setTrackRepeat p r) = (r, False, False)"
    using call_flags [of p "SetTrackRepeat r"] by (simp add: wants_def)
  have q: "repeat_flags (setQueueRepeat p r) = (False, r, False)"
    using call_flags [of p "SetQueueRepeat r"] by (simp add: wants_def)
  have d: "1 < size_q (queue p) \<longrightarrow>
      (\<exists>p'. setDynamicRepeat p r ms = Inr p' \<and> repeat_flags p' = (False, False, r))"
    by (simp add: setDynamicRepeat_def repeat_flags_def)
  have x: "size_q (queue p) \<le> 1 \<longrightarrow>
      setDynamicRepeat p r ms = Inl RangeError \<and> calls_seq p [SetDynamicRepeat r ms] = p"
    by (simp add: setDynamicRepeat_def)
  show ?thesis
    using calls_seq_keeps [of p cs] calls_seq_keeps [OF fresh, of cs] thrown t q d x
    by blast
qed

text \<open>
  C10 as the code has it: a sequence of three calls on the player with current A, pending
  B and track repeat on, the two setters that always take effect, \<open>setDynamicRepeat\<close>
  enabling on that player, and the rejected call on the player with one track.
\<close>

theorem repeat_modes_exclusive_witness:
  "at_most_one (calls_seq player_R [SetQueueRepeat True, SetDynamicRepeat True 5000, SetTrackRepeat False])
   \<and> repeat_flags (setTrackRepeat player_R False) = (False, False, False)
   \<and> repeat_flags (setQueueRepeat player_R True) = (False, True, False)
   \<and> (\<exists>p'. setDynamicRepeat player_R True 5000 = Inr p' \<and> repeat_flags p' = (False, False, True))
   \<and> setDynamicRepeat player_one False 5000 = Inl RangeError
   \<and> calls_seq player_one [SetDynamicRepeat False 5000] = player_one"
proof -
  have a: "at_most_one player_R"
    by (simp add: at_most_one_def player_R_def player_AB_def new_player_def)
  have two: "1 < size_q (queue player_R)"
    by (simp add: size_q_def totalSize_def player_R_def player_AB_def new_player_def)
  have one: "size_q (queue player_one) \<le> 1"
    by (simp add: size_q_def totalSize_def player_one_def new_player_def)
  show ?thesis
    using a two one
      repeat_modes_exclusive [where p = player_R and r = False
        and cs = "[SetQueueRepeat True, SetDynamicRepeat True 5000, SetTrackRepeat False]"]
      repeat_modes_exclusive [where p = player_R and r = True and ms = 5000]
      repeat_modes_exclusive [where p = player_one and r = False and ms = 5000]
    by blast
qed

text \<open>
  C10 as stated fails on the player with one track and track repeat on: the call of
  \<open>setDynamicRepeat\<close> that disables is rejected, and \<open>trackRepeat\<close> is still true after
  it, so the three flags are not all false.
\<close>

theorem repeat_modes_exclusive_counterexample:
  "setDynamicRepeat player_one False 5000 = Inl RangeError
   \<and> repeat_flags (calls_seq player_one [SetDynamicRepeat False 5000]) = (True, False, False)
   \<and> repeat_flags (calls_seq player_one [SetDynamicRepeat False 5000]) \<noteq> (False, False, False)"
  by (simp add: setDynamicRepeat_def size_q_def totalSize_def repeat_flags_def player_one_def
      new_player_def)

section \<open>Reconnection\<close>

lemma closes_step: "closes a (Suc k) n = closes a k (close_round a n)"
  by simp

lemma retry_round:
  assumes "enat (reconnectAttempts n) < retryAmount n"
  shows "fatal_errors (close_round a n) = fatal_errors n"
    and "registered (close_round a n) = registered n"
    and "retryAmount (close_round a n) = retryAmount n"
    and "reconnectAttempts (close_round a n) = reconnectAttempts n + 1"
    and "nodeDestroy \<in> set (emitted (close_round a n)) \<longleftrightarrow> nodeDestroy \<in> set (emitted n)"
  using assms
  by (auto simp: close_round_def socket_closed_def close_def reconnect_def reconnect_timer_def
      connect_def connected_def fatal_errors_def Let_def)

lemma fatal_round:
  assumes "enat (reconnectAttempts n) \<ge> retryAmount n"
  shows "fatal_errors (close_round a n) = fatal_errors n + 1"
    and "registered (close_round a n) = registered n"
    and "reconnectTimeout (close_round a n) = False"
    and "socket (close_round a n) = Some WS_CLOSED"
    and "nodeDestroy \<in> set (emitted (close_round a n)) \<longleftrightarrow> nodeDestroy \<in> set (emitted n)"
  using assms
  by (auto simp: close_round_def socket_closed_def close_def reconnect_def reconnect_timer_def
      destroy_def connected_def fatal_errors_def Let_def)

lemma closes_until_fatal:
  assumes "retryAmount n = enat N" and "reconnectAttempts n + k = N"
  shows "fatal_errors (closes a (Suc k) n) = fatal_errors n + 1
         \<and> registered (closes a (Suc k) n) = registered n
         \<and> reconnectTimeout (closes a (Suc k) n) = False
         \<and> socket (closes a (Suc k) n) = Some WS_CLOSED
         \<and> (nodeDestroy \<in> set (emitted (closes a (Suc k) n)) \<longleftrightarrow> nodeDestroy \<in> set (emitted n))"
  using assms
proof (induction k arbitrary: n)
  case 0
  then have "enat (reconnectAttempts n) \<ge> retryAmount n" by simp
  then show ?case using fatal_round [of n a] by simp
next
  case (Suc k)
  then have lt: "enat (reconnectAttempts n) < retryAmount n" by simp
  have "retryAmount (close_round a n) = enat N"
    and "reconnectAttempts (close_round a n) + k = N"
    using retry_round [OF lt, of a] Suc.prems by simp_all
  from Suc.IH [OF this] show ?case
    using retry_round [OF lt, of a] by (simp del: closes.simps(2) add: closes_step)
qed

text \<open>
  C2, what the code does. For a node with retry ceiling \<open>N \<ge> 1\<close> whose socket was open,
  after \<open>N\<close> non-normal closes in a row, each followed by its reconnect callback, the
  fatal error has been emitted exactly once and no callback is pending; but the node is
  still in the collection of the manager and no destroy event was emitted, because
  \<open>destroy\<close> returns at once on a socket that is not open.
\<close>

theorem retries_exhausted_node_stays:
  assumes "1 \<le> N"
  shows "fatal_errors (closes autoMove N (live_node (enat N) gs)) = 1
         \<and> reconnectTimeout (closes autoMove N (live_node (enat N) gs)) = False
         \<and> socket (closes autoMove N (live_node (enat N) gs)) = Some WS_CLOSED
         \<and> registered (closes autoMove N (live_node (enat N) gs))
         \<and> nodeDestroy \<notin> set (emitted (closes autoMove N (live_node (enat N) gs)))"
proof -
  obtain k where N: "N = Suc k" using assms by (cases N) auto
  have "retryAmount (live_node (enat N) gs) = enat N"
    and "reconnectAttempts (live_node (enat N) gs) + k = N"
    using N by (simp_all add: live_node_def)
  from closes_until_fatal [OF this, of autoMove] show ?thesis
    unfolding N [symmetric] by (simp add: live_node_def fatal_errors_def)
qed

text \<open>C2, what the code does, for the ceiling 2 and one bound player.\<close>

theorem retries_exhausted_node_stays_witness:
  "(1::nat) \<le> 2
   \<and> fatal_errors (closes True 2 (live_node 2 [''1''])) = 1
   \<and> registered (closes True 2 (live_node 2 [''1'']))
   \<and> nodeDestroy \<notin> set (emitted (closes True 2 (live_node 2 [''1''])))"
  using retries_exhausted_node_stays [of 2 True "[''1'']"]
  by (simp add: numeral_eq_enat)

text \<open>
  C9, as the code has it. The handler of the open event clears a pending reconnect timer
  and emits the connect event; the reconnect-attempt counter is as it was before.
\<close>

theorem open_keeps_attempts:
  "reconnectTimeout (open n) = False
   \<and> emitted (open n) = emitted n @ [nodeConnect]
   \<and> reconnectAttempts (open n) = reconnectAttempts n
   \<and> reconnectAttempts (socket_opened n) = reconnectAttempts n"
  by (simp add: open_def socket_opened_def Let_def)

text \<open>
  C9 as stated fails for the ceiling 2: after one failed round and a successful open the
  counter is 2, not its initial value 1, and the next non-normal close brings the fatal
  error with no reconnect attempt.
\<close>

theorem open_keeps_attempts_counterexample:
  "reconnectAttempts (live_node 2 []) = 1
   \<and> reconnectAttempts (socket_opened (close_round True (live_node 2 []))) = 2
   \<and> emitted (close_round True (socket_opened (close_round True (live_node 2 [])))) =
       [nodeDisconnect 1006 [], nodeReconnect, nodeConnect,
        nodeDisconnect 1006 [], nodeError (UnableToConnect 2)]"
  by (simp add: close_round_def socket_closed_def socket_opened_def open_def close_def reconnect_def
      reconnect_timer_def destroy_def connect_def connected_def Let_def
      live_node_def one_enat_def numeral_eq_enat)

section \<open>Session resume\<close>

text \<open>
  C7, what the code does. When the first remote player of the list is not tracked and its
  snapshot lacks the voice channel, the guild or the text channel, the snapshot is deleted
  and no player is made for it, and the handler returns: the remote players after it are
  not looked at, so a stale snapshot of one of them stays in the store.
\<close>

theorem resume_returns_at_stale_snapshot:
  assumes "players m (guildId rp) = None"
    and "db m (guildId rp) = Some s"
    and "s_voiceChannel s = None \<or> s_guild s = None \<or> s_textChannel s = None"
  shows "resume_loop decode nid m (rp # rest) = (None, m\<lparr>db := (db m)(guildId rp := None)\<rparr>)"
  using assms by (auto simp: truthy_def)

text \<open>
  C7, what the code does, on two remote players with stale snapshots: the first snapshot
  is deleted, the second is still stored.
\<close>

theorem resume_returns_at_stale_snapshot_witness:
  "resume_loop (\<lambda>ts. []) ''main'' manager_two_stale [remote ''1'', remote ''2''] =
     (None, manager_two_stale\<lparr>db := [''2'' \<mapsto> stale ''2'']\<rparr>)
   \<and> db (snd (resume_loop (\<lambda>ts. []) ''main'' manager_two_stale [remote ''1'', remote ''2''])) ''2''
       = Some (stale ''2'')"
proof -
  have "resume_loop (\<lambda>ts. []) ''main'' manager_two_stale (remote ''1'' # [remote ''2'']) =
      (None, manager_two_stale\<lparr>db := (db manager_two_stale)(guildId (remote ''1'') := None)\<rparr>)"
    by (rule resume_returns_at_stale_snapshot [where s = "stale ''1''"])
      (simp_all add: manager_two_stale_def remote_def stale_def no_snapshot_def)
  moreover have "(db manager_two_stale)(guildId (remote ''1'') := None) = [''2'' \<mapsto> stale ''2'']"
    by (auto simp: manager_two_stale_def remote_def)
  ultimately show ?thesis by simp
qed

section \<open>Moving a player\<close>

text \<open>
  C8. Every player update that \<open>moveNode\<close> pushes goes to the destination node, is the
  first call made, and carries the encoded payload of the current track, the position the
  source node reported (the cached position of the player when the source node is not
  connected), the volume of the player and each filter category of the player unchanged.
  The update is pushed whenever the target resolves to a node of the manager other than
  the node of the player and, with the source connected, the source answered.
\<close>

theorem moveNode_payload:
  "(updatePlayer d g u \<in> set (fst (moveNode m p tgt srcConnected fetched)) \<longrightarrow>
      hd (fst (moveNode m p tgt srcConnected fetched)) = updatePlayer d g u
      \<and> resolve_target m tgt = Inr d \<and> g = guild p
      \<and> encodedTrack u = map_option track (current (queue p))
      \<and> (srcConnected \<longrightarrow> fetched = Some (u_position u))
      \<and> (\<not> srcConnected \<longrightarrow> u_position u = position p)
      \<and> u_volume u = volume p
      \<and> distortion (u_filters u) = distortion (filters p)
      \<and> equalizer (u_filters u) = equalizer (filters p)
      \<and> karaoke (u_filters u) = karaoke (filters p)
      \<and> rotation (u_filters u) = rotation (filters p)
      \<and> timescale (u_filters u) = timescale (filters p)
      \<and> vibrato (u_filters u) = vibrato (filters p)
      \<and> f_volume (u_filters u) = f_volume (filters p))
   \<and> (resolve_target m tgt = Inr dest \<and> map_of (nodes m) dest \<noteq> None \<and> node p \<noteq> dest
        \<and> (srcConnected \<longrightarrow> fetched \<noteq> None) \<longrightarrow>
      (\<exists>u. hd (fst (moveNode m p tgt srcConnected fetched)) = updatePlayer dest (guild p) u
           \<and> updatePlayer dest (guild p) u \<in> set (fst (moveNode m p tgt srcConnected fetched))))"
proof (intro conjI impI)
  assume "resolve_target m tgt = Inr dest \<and> map_of (nodes m) dest \<noteq> None \<and> node p \<noteq> dest
        \<and> (srcConnected \<longrightarrow> fetched \<noteq> None)"
  then show "\<exists>u. hd (fst (moveNode m p tgt srcConnected fetched)) = updatePlayer dest (guild p) u
           \<and> updatePlayer dest (guild p) u \<in> set (fst (moveNode m p tgt srcConnected fetched))"
    by (auto simp: moveNode_def Let_def split: option.splits)
qed (auto simp: moveNode_def Let_def split: sum.splits if_splits option.splits)

text \<open>
  C8 on two connected nodes: the player on \<open>main\<close>, playing A, moves to the least loaded
  node \<open>backup\<close> with the position 42000 reported by \<open>main\<close>.
\<close>

theorem moveNode_payload_witness:
  "\<exists>u. hd (fst (moveNode two_nodes player_live None True (Some 42000))) = updatePlayer ''backup'' ''1'' u
     \<and> encodedTrack u = Some ''QAAA'' \<and> u_position u = 42000 \<and> u_volume u = 80
     \<and> u_filters u = new_Filters"
proof -
  have r: "resolve_target two_nodes None = Inr ''backup''"
    by (simp add: resolve_target_def two_nodes_def truthy_def)
  have pre: "resolve_target two_nodes None = Inr ''backup'' \<and> map_of (nodes two_nodes) ''backup'' \<noteq> None
      \<and> node player_live \<noteq> ''backup'' \<and> (True \<longrightarrow> Some (42000::int) \<noteq> None)"
    using r by (simp add: two_nodes_def player_live_def player_AB_def new_player_def)
  have g: "guild player_live = ''1''"
    by (simp add: player_live_def player_AB_def new_player_def)
  from pre moveNode_payload [where m = two_nodes and p = player_live and tgt = None
      and srcConnected = True and fetched = "Some 42000" and dest = "''backup''"]
  obtain u where u: "hd (fst (moveNode two_nodes player_live None True (Some 42000))) = updatePlayer ''backup'' ''1'' u"
    and mem: "updatePlayer ''backup'' ''1'' u \<in> set (fst (moveNode two_nodes player_live None True (Some 42000)))"
    unfolding g by blast
  from mem moveNode_payload [where m = two_nodes and p = player_live and tgt = None
      and srcConnected = True and fetched = "Some 42000" and d = "''backup''" and g = "''1''" and u = u]
  have f: "encodedTrack u = map_option track (current (queue player_live))"
    "Some 42000 = Some (u_position u)" "u_volume u = volume player_live"
    "distortion (u_filters u) = distortion (filters player_live)"
    "equalizer (u_filters u) = equalizer (filters player_live)"
    "karaoke (u_filters u) = karaoke (filters player_live)"
    "rotation (u_filters u) = rotation (filters player_live)"
    "timescale (u_filters u) = timescale (filters player_live)"
    "vibrato (u_filters u) = vibrato (filters player_live)"
    "f_volume (u_filters u) = f_volume (filters player_live)"
    by simp_all
  have "u_filters u = new_Filters"
    using f(4-10) by (cases "u_filters u")
      (simp add: player_live_def player_AB_def new_player_def new_Filters_def)
  with u f(1-3) show ?thesis
    by (auto simp: player_live_def player_AB_def new_player_def trackA_def)
qed

end
